theory Spec2Isabelle
  imports Main
begin

section \<open>Python values\<close>

text \<open>
  The provider's response body is decoded JSON, and the request parameters are a Python
  dict; both hold dynamically typed values. \<open>pyval\<close> is the fragment of Python's
  values that JSON decoding produces (floating point numbers left out). A dict nested in
  a value is an association list read with \<open>map_of\<close>; its keys are JSON object keys,
  hence strings.
\<close>

datatype pyval =
    PNone
  | PBool bool
  | PInt int
  | PStr string
  | PList "pyval list"
  | PDict "(string \<times> pyval) list"

text \<open>The exceptions that the modelled code can raise.\<close>

datatype exn =
    KeyError string
  | TypeError
  | AttributeError
  | DoesNotExist
  | MultipleObjectsReturned
  | IntegrityError
  | DatabaseError
  | OverflowError
  | RequestException
  | Http404
  | ValidationError

text \<open>Truth value testing, as \<^verbatim>\<open>if x\<close> and \<^verbatim>\<open>x or y\<close> do it.\<close>

fun truthy :: "pyval \<Rightarrow> bool" where
  "truthy PNone = False"
| "truthy (PBool b) = b"
| "truthy (PInt i) = (i \<noteq> 0)"
| "truthy (PStr s) = (s \<noteq> [])"
| "truthy (PList xs) = (xs \<noteq> [])"
| "truthy (PDict kvs) = (kvs \<noteq> [])"

text \<open>\<^verbatim>\<open>v[k]\<close> with a string key: only a dict can be subscripted by a string.\<close>

fun py_getitem :: "pyval \<Rightarrow> string \<Rightarrow> exn + pyval" where
  "py_getitem (PDict kvs) k =
     (case map_of kvs k of None \<Rightarrow> Inl (KeyError k) | Some v \<Rightarrow> Inr v)"
| "py_getitem v k = Inl TypeError"

text \<open>\<^verbatim>\<open>v.get(k, d)\<close>: only a dict has the method (\<^verbatim>\<open>v.get(k)\<close> is the case \<open>d = PNone\<close>).\<close>

fun py_get :: "pyval \<Rightarrow> string \<Rightarrow> pyval \<Rightarrow> exn + pyval" where
  "py_get (PDict kvs) k d = (case map_of kvs k of None \<Rightarrow> Inr d | Some v \<Rightarrow> Inr v)"
| "py_get v k d = Inl AttributeError"

text \<open>
  \<^verbatim>\<open>for x in v\<close>: a list yields its elements, a dict its keys, a string its characters;
  nothing else of \<open>pyval\<close> is iterable.
\<close>

fun py_iter :: "pyval \<Rightarrow> exn + pyval list" where
  "py_iter (PList xs) = Inr xs"
| "py_iter (PDict kvs) = Inr (map (\<lambda>kv. PStr (fst kv)) kvs)"
| "py_iter (PStr s) = Inr (map (\<lambda>c. PStr [c]) s)"
| "py_iter v = Inl TypeError"

text \<open>
  \<^verbatim>\<open>str(v)\<close> for a number: the decimal digits, with a minus sign for a negative
  integer. \<open>digit_char\<close> is only applied to a number below 10.
\<close>

definition digit_char :: "nat \<Rightarrow> char" where
  "digit_char n = ''0123456789'' ! n"

function str_nat :: "nat \<Rightarrow> string" where
  "str_nat n = (if n < 10 then [digit_char n] else str_nat (n div 10) @ [digit_char (n mod 10)])"
  by pat_completeness auto
termination
  by (relation "measure (\<lambda>n. n)") auto

definition str_int :: "int \<Rightarrow> string" where
  "str_int i = (if i < 0 then CHR ''-'' # str_nat (nat (- i)) else str_nat (nat i))"

section \<open>Strings: split, strip and join\<close>

text \<open>
  \<^verbatim>\<open>s.split(",")\<close>: the segments between commas; the empty string has the one segment
  \<^verbatim>\<open>""\<close>. The result is never the empty list.
\<close>

fun split_comma :: "string \<Rightarrow> string list" where
  "split_comma [] = [[]]"
| "split_comma (c # cs) =
     (if c = CHR '','' then [] # split_comma cs
      else (case split_comma cs of
              [] \<Rightarrow> [[c]]
            | w # ws \<Rightarrow> (c # w) # ws))"

text \<open>
  A \<open>char\<close> is a code point below 256. The characters \<^verbatim>\<open>str.strip()\<close> removes are the
  code points for which \<^verbatim>\<open>str.isspace()\<close> holds; below 256 these are tab, line feed,
  vertical tab, form feed, carriage return, the four separators 28 to 31, the space,
  the next-line character U+0085 and the no-break space U+00A0.
\<close>

definition is_space :: "char \<Rightarrow> bool" where
  "is_space c = (of_char c \<in> {9 :: nat, 10, 11, 12, 13, 28, 29, 30, 31, 32, 133, 160})"

definition strip :: "string \<Rightarrow> string" where
  "strip s = rev (dropWhile is_space (rev (dropWhile is_space s)))"

text \<open>\<^verbatim>\<open>",".join(xs)\<close>.\<close>

fun join_comma :: "string list \<Rightarrow> string" where
  "join_comma [] = []"
| "join_comma [x] = x"
| "join_comma (x # y # ys) = x @ CHR '','' # join_comma (y # ys)"

section \<open>Search configurations and the parameter translator\<close>

text \<open>
  \<^verbatim>\<open>NewsSearchConfig\<close> of \<^verbatim>\<open>models.py\<close>. The primary key \<^verbatim>\<open>id\<close> is \<open>config_pk\<close>, the
  foreign key \<^verbatim>\<open>user\<close> is the user's key, \<^verbatim>\<open>keywords\<close> is \<open>keywords_f\<close> and the
  creation time is \<open>config_created_at\<close>; the other fields keep their names. Text
  columns are not nullable, so an empty text is the empty string. Times are of type
  \<open>int\<close> (see the section on time).
\<close>

record news_search_config =
  config_pk :: nat
  user_id :: nat
  name :: string
  keywords_f :: string
  country :: string
  category :: string
  sources :: string
  sort_by :: string
  frequency :: string
  is_active :: bool
  config_created_at :: int
  updated_at :: int
  last_executed :: "int option"

definition get_sources_list :: "news_search_config \<Rightarrow> string list" where
  "get_sources_list c =
     (if sources c \<noteq> []
      then map strip (filter (\<lambda>s. strip s \<noteq> []) (split_comma (sources c)))
      else [])"

text \<open>
  \<^verbatim>\<open>get_newsapi_params\<close>: the dict is a finite map; \<^verbatim>\<open>params.pop(k, None)\<close> removes
  the key \<open>k\<close>.
\<close>

definition get_newsapi_params :: "news_search_config \<Rightarrow> (string \<rightharpoonup> pyval)" where
  "get_newsapi_params c =
     (let params = [''country'' \<mapsto> PStr (country c),
                    ''category'' \<mapsto> PStr (category c),
                    ''sortBy'' \<mapsto> PStr (sort_by c)];
          params = (if keywords_f c \<noteq> [] then params(''q'' \<mapsto> PStr (keywords_f c)) else params)
      in if sources c \<noteq> []
         then ((params(''sources'' \<mapsto> PStr (join_comma (get_sources_list c))))
                 (''country'' := None)) (''category'' := None)
         else params)"

section \<open>Time\<close>

text \<open>
  A \<^verbatim>\<open>datetime\<close> is the number of microseconds since the start of day 0 of the proleptic
  Gregorian calendar, so that 0001-01-01 (ordinal 1) starts at \<open>day_us\<close>. Python's
  \<^verbatim>\<open>datetime\<close> holds the ordinals 1 to 3652059 (the years 1 to 9999) and a
  \<^verbatim>\<open>timedelta\<close> at most 999999999 days either way; arithmetic that leaves these ranges
  raises \<^verbatim>\<open>OverflowError\<close>.
\<close>

definition day_us :: int where
  "day_us = 86400000000"

definition MAXORDINAL :: int where
  "MAXORDINAL = 3652059"

definition datetime_ok :: "int \<Rightarrow> bool" where
  "datetime_ok t = (day_us \<le> t \<and> t < (MAXORDINAL + 1) * day_us)"

text \<open>\<^verbatim>\<open>t - timedelta(days=n)\<close>.\<close>

definition minus_days :: "int \<Rightarrow> int \<Rightarrow> exn + int" where
  "minus_days t n =
     (if 999999999 < \<bar>n\<bar> then Inl OverflowError
      else if datetime_ok (t - n * day_us) then Inr (t - n * day_us)
      else Inl OverflowError)"

section \<open>Articles, the two stores and the environment\<close>

text \<open>
  \<^verbatim>\<open>NewsArticle\<close> of \<^verbatim>\<open>models.py\<close>. The primary key is \<open>article_pk\<close> and the foreign key
  \<^verbatim>\<open>search_config\<close> is the configuration's key. The URL, by which rows are looked up
  and which is unique, is the text that Django stores (see \<open>to_text\<close> below). Every other
  column that takes its value from the provider's record keeps the Python value it was
  given (\<open>PNone\<close> is SQL's null).
\<close>

record news_article =
  article_pk :: nat
  search_config_id :: nat
  title :: pyval
  description :: pyval
  url :: string
  url_to_image :: pyval
  published_at :: pyval
  content :: pyval
  source_id :: pyval
  source_name :: pyval
  author :: pyval
  created_at :: int
  is_read :: bool

text \<open>
  The keyword arguments of \<^verbatim>\<open>get_or_create\<close>: the lookup \<^verbatim>\<open>url\<close> and the
  \<^verbatim>\<open>defaults\<close> dict.
\<close>

record article_params =
  p_search_config :: news_search_config
  p_title :: pyval
  p_description :: pyval
  p_url :: pyval
  p_url_to_image :: pyval
  p_published_at :: pyval
  p_content :: pyval
  p_source_id :: pyval
  p_source_name :: pyval
  p_author :: pyval

text \<open>
  The state: the Configuration Store, the Article Store in insertion order, the next
  automatic article key, and the number of times the clock has been read.
\<close>

record world =
  configs :: "news_search_config list"
  articles :: "news_article list"
  next_article_pk :: nat
  ticks :: nat

text \<open>One HTTP request of \<^verbatim>\<open>requests.get\<close>, and what comes back.\<close>

record request =
  req_url :: string
  req_params :: "string \<rightharpoonup> pyval"
  req_timeout :: nat

datatype http_outcome =
    Request_failed
  | Response nat pyval

text \<open>
  What the code does not decide: the readings of the clock (\<open>clock env n\<close> is the
  \<open>n\<close>-th reading), Python's \<^verbatim>\<open>str\<close> of a list or a dict (\<open>py_repr\<close>), the exception, if
  any, with which Django fails to convert the given values to column values
  (\<open>convert_error\<close>: the parsing of the publication date), the checks of the database
  other than the constraints declared in \<^verbatim>\<open>models.py\<close> (\<open>db_accepts\<close>: length limits),
  the setting \<^verbatim>\<open>NEWS_API_KEY\<close>, and the provider. \<open>Request_failed\<close> is an exception of
  \<^verbatim>\<open>requests.get\<close>; \<open>Response code body\<close> is a response with its HTTP status code and
  its decoded JSON body.
\<close>

record env =
  clock :: "nat \<Rightarrow> int"
  py_repr :: "pyval \<Rightarrow> string"
  convert_error :: "article_params \<Rightarrow> exn option"
  db_accepts :: "news_article \<Rightarrow> bool"
  NEWS_API_KEY :: "string option"
  requests_get :: "request \<Rightarrow> http_outcome"

definition timezone_now :: "env \<Rightarrow> world \<Rightarrow> int \<times> world" where
  "timezone_now e w = (clock e (ticks w), w\<lparr>ticks := Suc (ticks w)\<rparr>)"

text \<open>
  \<^verbatim>\<open>str(v)\<close>, and the value of a text column for a Python value: Django keeps a string
  and \<^verbatim>\<open>None\<close> (null, here \<open>None\<close>) and stores \<^verbatim>\<open>str(v)\<close> for any other value. A
  lookup by a text column converts the value it looks for in the same way.
\<close>

fun py_str :: "env \<Rightarrow> pyval \<Rightarrow> string" where
  "py_str e PNone = ''None''"
| "py_str e (PBool b) = (if b then ''True'' else ''False'')"
| "py_str e (PInt i) = str_int i"
| "py_str e (PStr s) = s"
| "py_str e v = py_repr e v"

fun to_text :: "env \<Rightarrow> pyval \<Rightarrow> string option" where
  "to_text e PNone = None"
| "to_text e v = Some (py_str e v)"

section \<open>The object manager\<close>

text \<open>
  \<^verbatim>\<open>Model.objects.get(...)\<close>: the one row that matches; no row and several rows are
  the two exceptions of Django.
\<close>

definition objects_get :: "('a \<Rightarrow> bool) \<Rightarrow> 'a list \<Rightarrow> exn + 'a" where
  "objects_get P rows =
     (case filter P rows of
        [] \<Rightarrow> Inl DoesNotExist
      | [r] \<Rightarrow> Inr r
      | r # r' # rs \<Rightarrow> Inl MultipleObjectsReturned)"

text \<open>
  \<^verbatim>\<open>NewsArticle.objects.create(**params)\<close>. Django converts the values column by
  column, and the creation time is the last of them: it is read (\<^verbatim>\<open>auto_now_add\<close>)
  once the provider's values have been converted, before the row is written. The
  database refuses the row when a column without \<^verbatim>\<open>null=True\<close> is null, for a reason
  of its own, when the text of the URL is already stored (\<^verbatim>\<open>unique=True\<close>) or when
  the configuration is not stored (the foreign key).
\<close>

definition new_row :: "article_params \<Rightarrow> string \<Rightarrow> nat \<Rightarrow> int \<Rightarrow> news_article" where
  "new_row p u k t =
     \<lparr>article_pk = k,
      search_config_id = config_pk (p_search_config p),
      title = p_title p,
      description = p_description p,
      url = u,
      url_to_image = p_url_to_image p,
      published_at = p_published_at p,
      content = p_content p,
      source_id = p_source_id p,
      source_name = p_source_name p,
      author = p_author p,
      created_at = t,
      is_read = False\<rparr>"

definition objects_create :: "env \<Rightarrow> article_params \<Rightarrow> world \<Rightarrow> (exn + news_article) \<times> world" where
  "objects_create e p w =
     (case convert_error e p of
        Some x \<Rightarrow> (Inl x, w)
      | None \<Rightarrow>
          (case timezone_now e w of
             (t, w1) \<Rightarrow>
               (case to_text e (p_url p) of
                  None \<Rightarrow> (Inl IntegrityError, w1)
                | Some u \<Rightarrow>
                    (let row = new_row p u (next_article_pk w1) t
                     in if title row = PNone \<or> published_at row = PNone
                           \<or> source_name row = PNone
                        then (Inl IntegrityError, w1)
                        else if \<not> db_accepts e row then (Inl DatabaseError, w1)
                        else if url row \<in> set (map url (articles w1))
                        then (Inl IntegrityError, w1)
                        else if search_config_id row \<notin> set (map config_pk (configs w1))
                        then (Inl IntegrityError, w1)
                        else (Inr row,
                              w1\<lparr>articles := articles w1 @ [row],
                                 next_article_pk := Suc (next_article_pk w1)\<rparr>)))))"

text \<open>
  \<^verbatim>\<open>NewsArticle.objects.get_or_create(url=..., defaults=...)\<close>: the row whose URL is
  the text of the given value if there is one, and nothing is written; otherwise the
  row it creates. A lookup for \<^verbatim>\<open>None\<close> finds no row, the column having no null. After an
  \<^verbatim>\<open>IntegrityError\<close> Django looks the URL up once more and raises the error again when
  it is still not there.
\<close>

definition get_or_create ::
  "env \<Rightarrow> article_params \<Rightarrow> world \<Rightarrow> (exn + news_article \<times> bool) \<times> world" where
  "get_or_create e p w =
     (case objects_get (\<lambda>a. to_text e (p_url p) = Some (url a)) (articles w) of
        Inr a \<Rightarrow> (Inr (a, False), w)
      | Inl x \<Rightarrow>
          if x \<noteq> DoesNotExist then (Inl x, w)
          else (case objects_create e p w of
                  (Inr a, w1) \<Rightarrow> (Inr (a, True), w1)
                | (Inl y, w1) \<Rightarrow>
                    if y \<noteq> IntegrityError then (Inl y, w1)
                    else (case objects_get (\<lambda>a. to_text e (p_url p) = Some (url a)) (articles w1) of
                            Inr a \<Rightarrow> (Inr (a, False), w1)
                          | Inl z \<Rightarrow> (Inl (if z = DoesNotExist then IntegrityError else z), w1))))"

section \<open>Normalisation of a provider record\<close>

definition bind_exn :: "exn + 'a \<Rightarrow> ('a \<Rightarrow> exn + 'b) \<Rightarrow> exn + 'b" where
  "bind_exn m f = (case m of Inl x \<Rightarrow> Inl x | Inr v \<Rightarrow> f v)"

text \<open>
  The arguments of the call in \<^verbatim>\<open>create_from_newsapi\<close>, evaluated in the order Python
  evaluates them, before \<^verbatim>\<open>get_or_create\<close> runs: the first that raises ends the call.
  \<^verbatim>\<open>X if article_data.get("source") else Y\<close> tests the truth value of the source, so
  a source that is null or an empty object counts as no source.
\<close>

definition source_id_of :: "pyval \<Rightarrow> exn + pyval" where
  "source_id_of d =
     bind_exn (py_get d ''source'' PNone) (\<lambda>s.
       if truthy s
       then bind_exn (py_getitem d ''source'') (\<lambda>src. py_get src ''id'' PNone)
       else Inr PNone)"

definition source_name_of :: "pyval \<Rightarrow> exn + pyval" where
  "source_name_of d =
     bind_exn (py_get d ''source'' PNone) (\<lambda>s.
       if truthy s
       then bind_exn (py_getitem d ''source'') (\<lambda>src. py_getitem src ''name'')
       else Inr (PStr ''Unknown''))"

definition newsapi_params_of :: "pyval \<Rightarrow> news_search_config \<Rightarrow> exn + article_params" where
  "newsapi_params_of d cfg =
     bind_exn (py_getitem d ''url'') (\<lambda>u.
     bind_exn (py_getitem d ''title'') (\<lambda>t.
     bind_exn (py_get d ''description'' PNone) (\<lambda>de.
     bind_exn (py_get d ''urlToImage'' PNone) (\<lambda>im.
     bind_exn (py_getitem d ''publishedAt'') (\<lambda>pa.
     bind_exn (py_get d ''content'' PNone) (\<lambda>co.
     bind_exn (source_id_of d) (\<lambda>si.
     bind_exn (source_name_of d) (\<lambda>sn.
     bind_exn (py_get d ''author'' PNone) (\<lambda>au.
       Inr \<lparr>p_search_config = cfg, p_title = t, p_description = de, p_url = u,
            p_url_to_image = im, p_published_at = pa, p_content = co,
            p_source_id = si, p_source_name = sn, p_author = au\<rparr>)))))))))"

definition create_from_newsapi ::
  "env \<Rightarrow> pyval \<Rightarrow> news_search_config \<Rightarrow> world \<Rightarrow> (exn + news_article \<times> bool) \<times> world" where
  "create_from_newsapi e d cfg w =
     (case newsapi_params_of d cfg of
        Inl x \<Rightarrow> (Inl x, w)
      | Inr p \<Rightarrow> get_or_create e p w)"

section \<open>The ingestion task\<close>

text \<open>
  The dict a task returns. \<open>Config_unavailable\<close> is
  \<^verbatim>\<open>{"error": "Configuration not found or inactive"}\<close>, \<open>No_api_key\<close> is
  \<^verbatim>\<open>{"error": "No NewsAPI key configured"}\<close>, \<open>NewsAPI_error m\<close> is
  \<^verbatim>\<open>{"error": f"NewsAPI error: {m}"}\<close> and \<open>Unexpected_error x\<close> is
  \<^verbatim>\<open>{"error": f"Unexpected error: {str(x)}"}\<close>: a formatted string is the constructor
  with the value that is formatted. \<open>Success\<close> holds \<^verbatim>\<open>config_id\<close>,
  \<^verbatim>\<open>config_name\<close>, \<^verbatim>\<open>total_articles\<close>, \<^verbatim>\<open>created_count\<close> and
  \<^verbatim>\<open>duplicate_count\<close>.
\<close>

datatype task_error =
    Config_unavailable
  | No_api_key
  | NewsAPI_error pyval
  | Unexpected_error exn

datatype task_result =
    Error task_error
  | Success nat string nat nat nat

text \<open>
  How an invocation ends: it returns a result, or it raises Celery's \<^verbatim>\<open>Retry\<close> (the
  task runs again after the countdown, in seconds), or it raises an exception and
  fails.
\<close>

datatype outcome =
    Returned task_result
  | Retry nat
  | Raised exn

definition max_retries :: nat where
  "max_retries = 3"

text \<open>
  \<^verbatim>\<open>raise self.retry(countdown=60 * (self.request.retries + 1), exc=e)\<close> in a task run
  by a worker: Celery raises \<^verbatim>\<open>exc\<close> itself once the retries are used up.
\<close>

definition self_retry :: "nat \<Rightarrow> exn \<Rightarrow> outcome" where
  "self_retry retries x =
     (if max_retries < retries + 1 then Raised x else Retry (60 * (retries + 1)))"

text \<open>
  The loop over the records, lines 65 to 77 of \<^verbatim>\<open>tasks.py\<close>: a record that raises is
  skipped and counts as neither created nor duplicate.
\<close>

fun process_articles ::
  "env \<Rightarrow> news_search_config \<Rightarrow> pyval list \<Rightarrow> world \<Rightarrow> nat \<Rightarrow> nat \<Rightarrow> world \<times> nat \<times> nat" where
  "process_articles e cfg [] w created_count duplicate_count =
     (w, created_count, duplicate_count)"
| "process_articles e cfg (d # ds) w created_count duplicate_count =
     (case create_from_newsapi e d cfg w of
        (Inr (article, created), w1) \<Rightarrow>
          if created then process_articles e cfg ds w1 (created_count + 1) duplicate_count
          else process_articles e cfg ds w1 created_count (duplicate_count + 1)
      | (Inl x, w1) \<Rightarrow> process_articles e cfg ds w1 created_count duplicate_count)"

text \<open>
  \<^verbatim>\<open>config.save(update_fields=['last_executed'])\<close>: the one column of the rows with
  the configuration's key; Django raises \<^verbatim>\<open>DatabaseError\<close> when no row has it.
\<close>

definition save_last_executed :: "news_search_config \<Rightarrow> world \<Rightarrow> exn + world" where
  "save_last_executed cfg w =
     (if config_pk cfg \<in> set (map config_pk (configs w))
      then Inr (w\<lparr>configs :=
                   map (\<lambda>c. if config_pk c = config_pk cfg
                             then c\<lparr>last_executed := last_executed cfg\<rparr> else c)
                       (configs w)\<rparr>)
      else Inl DatabaseError)"

text \<open>\<^verbatim>\<open>news_api_key or getattr(settings, 'NEWS_API_KEY', None)\<close>.\<close>

definition key_or :: "string option \<Rightarrow> string option \<Rightarrow> string option" where
  "key_or a b = (case a of None \<Rightarrow> b | Some k \<Rightarrow> if k \<noteq> [] then Some k else b)"

text \<open>
  What follows \<^verbatim>\<open>response.json()\<close>, lines 53 to 93. An exception here is caught by
  the last handler of the task, whatever has been written before.
\<close>

definition process_response ::
  "env \<Rightarrow> news_search_config \<Rightarrow> nat \<Rightarrow> pyval \<Rightarrow> world \<Rightarrow> outcome \<times> world" where
  "process_response e cfg cid data w =
     (case py_get data ''status'' PNone of
        Inl x \<Rightarrow> (Returned (Error (Unexpected_error x)), w)
      | Inr st \<Rightarrow>
          if st \<noteq> PStr ''ok''
          then (case py_get data ''message'' (PStr ''Unknown NewsAPI error'') of
                  Inl x \<Rightarrow> (Returned (Error (Unexpected_error x)), w)
                | Inr error_msg \<Rightarrow> (Returned (Error (NewsAPI_error error_msg)), w))
          else (case bind_exn (py_get data ''articles'' (PList [])) py_iter of
                  Inl x \<Rightarrow> (Returned (Error (Unexpected_error x)), w)
                | Inr records \<Rightarrow>
                    (case process_articles e cfg records w 0 0 of
                       (w1, created_count, duplicate_count) \<Rightarrow>
                         (case timezone_now e w1 of
                            (t, w2) \<Rightarrow>
                              (case save_last_executed (cfg\<lparr>last_executed := Some t\<rparr>) w2 of
                                 Inl x \<Rightarrow> (Returned (Error (Unexpected_error x)), w2)
                               | Inr w3 \<Rightarrow>
                                   (Returned (Success cid (name cfg) (length records)
                                                created_count duplicate_count), w3))))))"

text \<open>
  The request of lines 40 to 50: the translated parameters with the key and the page
  size, sent to the top-headlines endpoint with a timeout of 30 seconds.
\<close>

definition top_headlines_request :: "news_search_config \<Rightarrow> string \<Rightarrow> request" where
  "top_headlines_request cfg api_key =
     \<lparr>req_url = ''https://newsapi.org/v2/top-headlines'',
      req_params = (get_newsapi_params cfg)
        (''apiKey'' \<mapsto> PStr api_key, ''pageSize'' \<mapsto> PInt 100),
      req_timeout = 30\<rparr>"

text \<open>
  \<^verbatim>\<open>fetch_news_for_config(self, config_id, news_api_key)\<close>; \<open>retries\<close> is
  \<^verbatim>\<open>self.request.retries\<close>. \<^verbatim>\<open>response.raise_for_status()\<close> raises \<^verbatim>\<open>HTTPError\<close>, a
  \<^verbatim>\<open>RequestException\<close>, for a status code from 400 to 599.
\<close>

definition fetch_news_for_config ::
  "env \<Rightarrow> nat \<Rightarrow> nat \<Rightarrow> string option \<Rightarrow> world \<Rightarrow> outcome \<times> world" where
  "fetch_news_for_config e retries cid news_api_key w =
     (case objects_get (\<lambda>c. config_pk c = cid \<and> is_active c) (configs w) of
        Inl x \<Rightarrow>
          if x = DoesNotExist then (Returned (Error Config_unavailable), w)
          else (Returned (Error (Unexpected_error x)), w)
      | Inr cfg \<Rightarrow>
          (case key_or news_api_key (NEWS_API_KEY e) of
             None \<Rightarrow> (Returned (Error No_api_key), w)
           | Some api_key \<Rightarrow>
               if api_key = [] then (Returned (Error No_api_key), w)
               else (case requests_get e (top_headlines_request cfg api_key) of
                       Request_failed \<Rightarrow> (self_retry retries RequestException, w)
                     | Response code data \<Rightarrow>
                         if 400 \<le> code \<and> code < 600
                         then (self_retry retries RequestException, w)
                         else process_response e cfg cid data w)))"

section \<open>The bulk-create endpoint\<close>

text \<open>
  \<^verbatim>\<open>create_articles_from_newsapi\<close> of \<^verbatim>\<open>api.py\<close>. The loop has no handler: the first
  record that raises ends the request, and what the records before it wrote stays
  written (Django commits each statement unless told otherwise). The framework refuses
  a body that is not a list of objects before the function runs. \<open>sc_id\<close> is the
  parameter \<^verbatim>\<open>search_config_id\<close>.
\<close>

fun is_dict :: "pyval \<Rightarrow> bool" where
  "is_dict (PDict kvs) = True"
| "is_dict v = False"

fun create_loop ::
  "env \<Rightarrow> news_search_config \<Rightarrow> pyval list \<Rightarrow> world \<Rightarrow> news_article list
     \<Rightarrow> (exn + news_article list) \<times> world" where
  "create_loop e cfg [] w created_articles = (Inr created_articles, w)"
| "create_loop e cfg (d # ds) w created_articles =
     (case create_from_newsapi e d cfg w of
        (Inl x, w1) \<Rightarrow> (Inl x, w1)
      | (Inr (article, created), w1) \<Rightarrow>
          create_loop e cfg ds w1 (created_articles @ [article]))"

definition get_object_or_404 :: "('a \<Rightarrow> bool) \<Rightarrow> 'a list \<Rightarrow> exn + 'a" where
  "get_object_or_404 P rows =
     (case objects_get P rows of
        Inl x \<Rightarrow> Inl (if x = DoesNotExist then Http404 else x)
      | Inr r \<Rightarrow> Inr r)"

definition create_articles_from_newsapi ::
  "env \<Rightarrow> nat \<Rightarrow> pyval list \<Rightarrow> world \<Rightarrow> (exn + news_article list) \<times> world" where
  "create_articles_from_newsapi e sc_id articles_data w =
     (if \<not> list_all is_dict articles_data then (Inl ValidationError, w)
      else (case get_object_or_404 (\<lambda>c. config_pk c = sc_id) (configs w) of
              Inl x \<Rightarrow> (Inl x, w)
            | Inr search_config \<Rightarrow> create_loop e search_config articles_data w []))"

section \<open>The retention sweep\<close>

text \<open>
  \<^verbatim>\<open>cleanup_old_articles(self, days_to_keep=30)\<close>: \<open>None\<close> is the call without the
  argument. \<open>Cleanup_ok n t\<close> is the dict with \<^verbatim>\<open>deleted_count\<close> \<open>n\<close> and
  \<^verbatim>\<open>cutoff_date\<close> \<open>t\<close>; \<open>Cleanup_error x\<close> is \<^verbatim>\<open>{"error": f"Cleanup error: {str(x)}"}\<close>.
\<close>

datatype cleanup_result =
    Cleanup_ok nat int
  | Cleanup_error exn

definition cleanup_old_articles ::
  "env \<Rightarrow> int option \<Rightarrow> world \<Rightarrow> cleanup_result \<times> world" where
  "cleanup_old_articles e days_arg w =
     (let days_to_keep = (case days_arg of None \<Rightarrow> 30 | Some n \<Rightarrow> n) in
      case timezone_now e w of
        (t, w1) \<Rightarrow>
          (case minus_days t days_to_keep of
             Inl x \<Rightarrow> (Cleanup_error x, w1)
           | Inr cutoff_date \<Rightarrow>
               (let old_articles = filter (\<lambda>a. created_at a < cutoff_date) (articles w1);
                    count = length old_articles
                in if 0 < count
                   then (Cleanup_ok count cutoff_date,
                         w1\<lparr>articles :=
                              filter (\<lambda>a. \<not> created_at a < cutoff_date) (articles w1)\<rparr>)
                   else (Cleanup_ok 0 cutoff_date, w1))))"

section \<open>Example inputs\<close>

text \<open>A configuration with the defaults of \<^verbatim>\<open>models.py\<close>, stored and active.\<close>

definition example_config :: news_search_config where
  "example_config =
     \<lparr>config_pk = 1, user_id = 1, name = ''Tech News'', keywords_f = [],
      country = ''us'', category = ''general'', sources = [], sort_by = ''publishedAt'',
      frequency = ''daily'', is_active = True, config_created_at = 0, updated_at = 0,
      last_executed = None\<rparr>"

text \<open>
  An environment: a clock that starts in the year 2024 and advances by a microsecond
  at each reading, values that always convert, a database that refuses nothing of its
  own, no key in the settings and a provider that cannot be reached. No example holds
  a list or a dict where a text is stored, so \<open>py_repr\<close> is left empty. The examples below replace the provider.
\<close>

definition example_env :: env where
  "example_env =
     \<lparr>clock = (\<lambda>n. 63840000000000000 + int n),
      py_repr = (\<lambda>v. []),
      convert_error = (\<lambda>p. None),
      db_accepts = (\<lambda>r. True),
      NEWS_API_KEY = None,
      requests_get = (\<lambda>r. Request_failed)\<rparr>"

text \<open>The record of the repository's tests, and the record without a source.\<close>

definition example_record :: pyval where
  "example_record =
     PDict [(''source'', PDict [(''id'', PStr ''bbc-news''), (''name'', PStr ''BBC News'')]),
            (''author'', PStr ''John Doe''),
            (''title'', PStr ''Test Article Title''),
            (''description'', PStr ''This is a test article description''),
            (''url'', PStr ''https://example.com/article''),
            (''urlToImage'', PStr ''https://example.com/image.jpg''),
            (''publishedAt'', PStr ''2023-12-01T10:00:00Z''),
            (''content'', PStr ''This is the article content...'')]"

definition example_no_source :: pyval where
  "example_no_source =
     PDict [(''title'', PStr ''No Source Article''),
            (''url'', PStr ''https://example.com/no-source''),
            (''publishedAt'', PStr ''2023-12-01T10:00:00Z'')]"

text \<open>A record with the URL of \<open>example_record\<close> and no title.\<close>

definition example_untitled :: pyval where
  "example_untitled =
     PDict [(''url'', PStr ''https://example.com/article''),
            (''publishedAt'', PStr ''2023-12-01T10:00:00Z'')]"

text \<open>A record with every key of the provider's shape whose title is null.\<close>

definition example_null_title :: pyval where
  "example_null_title =
     PDict [(''source'', PDict [(''id'', PNone), (''name'', PStr ''CNN'')]),
            (''author'', PNone),
            (''title'', PNone),
            (''description'', PNone),
            (''url'', PStr ''https://example.com/removed''),
            (''urlToImage'', PNone),
            (''publishedAt'', PStr ''2023-12-01T09:00:00Z''),
            (''content'', PNone)]"

text \<open>The row that \<open>example_record\<close> becomes, and two states: nothing stored, and that row stored.\<close>

definition example_article :: news_article where
  "example_article =
     \<lparr>article_pk = 1, search_config_id = 1,
      title = PStr ''Test Article Title'',
      description = PStr ''This is a test article description'',
      url = ''https://example.com/article'',
      url_to_image = PStr ''https://example.com/image.jpg'',
      published_at = PStr ''2023-12-01T10:00:00Z'',
      content = PStr ''This is the article content...'',
      source_id = PStr ''bbc-news'',
      source_name = PStr ''BBC News'',
      author = PStr ''John Doe'',
      created_at = 63840000000000000,
      is_read = False\<rparr>"

text \<open>The keyword arguments that \<open>example_record\<close> gives for a second configuration.\<close>

definition example_params :: article_params where
  "example_params =
     \<lparr>p_search_config = example_config\<lparr>config_pk := 2\<rparr>,
      p_title = PStr ''Test Article Title'',
      p_description = PStr ''This is a test article description'',
      p_url = PStr ''https://example.com/article'',
      p_url_to_image = PStr ''https://example.com/image.jpg'',
      p_published_at = PStr ''2023-12-01T10:00:00Z'',
      p_content = PStr ''This is the article content...'',
      p_source_id = PStr ''bbc-news'',
      p_source_name = PStr ''BBC News'',
      p_author = PStr ''John Doe''\<rparr>"

text \<open>The row that \<open>example_no_source\<close> becomes.\<close>

definition example_no_source_row :: news_article where
  "example_no_source_row =
     \<lparr>article_pk = 1, search_config_id = 1,
      title = PStr ''No Source Article'',
      description = PNone,
      url = ''https://example.com/no-source'',
      url_to_image = PNone,
      published_at = PStr ''2023-12-01T10:00:00Z'',
      content = PNone,
      source_id = PNone,
      source_name = PStr ''Unknown'',
      author = PNone,
      created_at = 63840000000000000,
      is_read = False\<rparr>"

definition example_world :: world where
  "example_world =
     \<lparr>configs = [example_config], articles = [], next_article_pk = 1, ticks = 0\<rparr>"

definition example_stored :: world where
  "example_stored =
     \<lparr>configs = [example_config], articles = [example_article], next_article_pk = 2,
      ticks = 1\<rparr>"

text \<open>
  The provider's answer to a key it does not accept, and an answer with two records
  that both fail to be stored.
\<close>

definition example_rejection :: pyval where
  "example_rejection =
     PDict [(''status'', PStr ''error''), (''code'', PStr ''apiKeyInvalid''),
            (''message'', PStr ''Your API key is invalid or incorrect.'')]"

definition example_failing_body :: pyval where
  "example_failing_body =
     PDict [(''status'', PStr ''ok''), (''totalResults'', PInt 2),
            (''articles'', PList [example_untitled, example_null_title])]"

section \<open>The parameter translator\<close>

lemma split_comma_not_Nil: "split_comma s \<noteq> []"
  by (induction s) (auto split: list.splits)

lemma split_comma_blank:
  "list_all (\<lambda>x. x = CHR '','' \<or> is_space x) s \<Longrightarrow> list_all (list_all is_space) (split_comma s)"
proof (induction s)
  case Nil
  then show ?case by simp
next
  case (Cons c cs)
  then have ih: "list_all (list_all is_space) (split_comma cs)" by simp
  show ?case
  proof (cases "c = CHR '',''")
    case True
    with ih show ?thesis by simp
  next
    case False
    with Cons.prems have sp: "is_space c" by simp
    obtain w ws where eq: "split_comma cs = w # ws"
      using split_comma_not_Nil [of cs] by (cases "split_comma cs") auto
    with ih sp False show ?thesis by simp
  qed
qed

lemma strip_blank:
  assumes "list_all is_space w"
  shows "strip w = []"
proof -
  from assms have "dropWhile is_space w = []"
    by (simp add: list_all_iff)
  then show ?thesis
    by (simp add: strip_def del: dropWhile_eq_Nil_conv)
qed

lemma filter_strip_blank:
  "list_all (list_all is_space) ws \<Longrightarrow> filter (\<lambda>s. strip s \<noteq> []) ws = []"
  by (induction ws) (simp_all add: strip_blank)

text \<open>
  C2. With a non-empty \<^verbatim>\<open>sources\<close> the translated parameters have neither the key
  \<^verbatim>\<open>country\<close> nor the key \<^verbatim>\<open>category\<close>; with an empty \<^verbatim>\<open>sources\<close> they have both.
  Non-empty is the truth value of the stored string.
\<close>

theorem translator_exclusive:
  "(sources c \<noteq> [] \<longrightarrow>
      ''country'' \<notin> dom (get_newsapi_params c) \<and> ''category'' \<notin> dom (get_newsapi_params c))
   \<and> (sources c = [] \<longrightarrow>
      ''country'' \<in> dom (get_newsapi_params c) \<and> ''category'' \<in> dom (get_newsapi_params c))"
  by (simp add: get_newsapi_params_def Let_def)

theorem translator_exclusive_witness:
  "sources (example_config\<lparr>sources := ''bbc-news,cnn''\<rparr>) \<noteq> []
   \<and> ''country'' \<notin> dom (get_newsapi_params (example_config\<lparr>sources := ''bbc-news,cnn''\<rparr>))
   \<and> ''category'' \<notin> dom (get_newsapi_params (example_config\<lparr>sources := ''bbc-news,cnn''\<rparr>))
   \<and> sources example_config = []
   \<and> ''country'' \<in> dom (get_newsapi_params example_config)
   \<and> ''category'' \<in> dom (get_newsapi_params example_config)"
  using translator_exclusive [of "example_config\<lparr>sources := ''bbc-news,cnn''\<rparr>"]
    translator_exclusive [of example_config]
  by (simp add: example_config_def)

text \<open>
  C7. The two examples of the specification. A configuration with country \<^verbatim>\<open>us\<close>, category
  \<^verbatim>\<open>technology\<close>, keywords \<^verbatim>\<open>ai\<close>, no sources and the default ordering translates to
  exactly the four parameters \<^verbatim>\<open>country\<close>, \<^verbatim>\<open>category\<close>, \<^verbatim>\<open>sortBy\<close> and \<^verbatim>\<open>q\<close>; a
  configuration with sources \<^verbatim>\<open>bbc-news,cnn\<close>, keywords \<^verbatim>\<open>breaking\<close> and the default
  ordering translates to exactly \<^verbatim>\<open>sortBy\<close>, \<^verbatim>\<open>q\<close> and \<^verbatim>\<open>sources\<close>, whatever its country
  and category are.
\<close>

theorem translator_examples:
  "get_newsapi_params (c\<lparr>country := ''us'', category := ''technology'', keywords_f := ''ai'',
       sources := [], sort_by := ''publishedAt''\<rparr>)
     = [''country'' \<mapsto> PStr ''us'', ''category'' \<mapsto> PStr ''technology'',
        ''sortBy'' \<mapsto> PStr ''publishedAt'', ''q'' \<mapsto> PStr ''ai'']
   \<and> get_newsapi_params (c\<lparr>sources := ''bbc-news,cnn'', keywords_f := ''breaking'',
       sort_by := ''publishedAt''\<rparr>)
     = [''sortBy'' \<mapsto> PStr ''publishedAt'', ''q'' \<mapsto> PStr ''breaking'',
        ''sources'' \<mapsto> PStr ''bbc-news,cnn'']
   \<and> ''country'' \<notin> dom (get_newsapi_params (c\<lparr>sources := ''bbc-news,cnn'',
       keywords_f := ''breaking'', sort_by := ''publishedAt''\<rparr>))
   \<and> ''category'' \<notin> dom (get_newsapi_params (c\<lparr>sources := ''bbc-news,cnn'',
       keywords_f := ''breaking'', sort_by := ''publishedAt''\<rparr>))"
proof (intro conjI)
  show "get_newsapi_params (c\<lparr>country := ''us'', category := ''technology'', keywords_f := ''ai'',
       sources := [], sort_by := ''publishedAt''\<rparr>)
     = [''country'' \<mapsto> PStr ''us'', ''category'' \<mapsto> PStr ''technology'',
        ''sortBy'' \<mapsto> PStr ''publishedAt'', ''q'' \<mapsto> PStr ''ai'']"
    by (simp add: get_newsapi_params_def Let_def)
  show "get_newsapi_params (c\<lparr>sources := ''bbc-news,cnn'', keywords_f := ''breaking'',
       sort_by := ''publishedAt''\<rparr>)
     = [''sortBy'' \<mapsto> PStr ''publishedAt'', ''q'' \<mapsto> PStr ''breaking'',
        ''sources'' \<mapsto> PStr ''bbc-news,cnn'']"
    by (rule ext)
       (simp add: get_newsapi_params_def Let_def get_sources_list_def strip_def is_space_def)
  show "''country'' \<notin> dom (get_newsapi_params (c\<lparr>sources := ''bbc-news,cnn'',
       keywords_f := ''breaking'', sort_by := ''publishedAt''\<rparr>))"
    by (simp add: get_newsapi_params_def Let_def)
  show "''category'' \<notin> dom (get_newsapi_params (c\<lparr>sources := ''bbc-news,cnn'',
       keywords_f := ''breaking'', sort_by := ''publishedAt''\<rparr>))"
    by (simp add: get_newsapi_params_def Let_def)
qed

theorem translator_examples_witness:
  "get_newsapi_params (example_config\<lparr>country := ''us'', category := ''technology'',
       keywords_f := ''ai'', sources := [], sort_by := ''publishedAt''\<rparr>) ''q''
     = Some (PStr ''ai'')
   \<and> dom (get_newsapi_params (example_config\<lparr>sources := ''bbc-news,cnn'',
       keywords_f := ''breaking'', sort_by := ''publishedAt''\<rparr>))
     = {''sortBy'', ''q'', ''sources''}"
  using translator_examples [of example_config]
  by auto

text \<open>
  C10. The test for sources is the truth value of the stored string, not of the list
  \<^verbatim>\<open>get_sources_list\<close> returns: when \<^verbatim>\<open>sources\<close> is a non-empty string of commas and
  white space only (the characters that \<^verbatim>\<open>str.strip()\<close> removes, the no-break space
  among them), the list is empty, the parameters lose \<^verbatim>\<open>country\<close> and
  \<^verbatim>\<open>category\<close>, and \<^verbatim>\<open>sources\<close> is sent as the empty string.
\<close>

theorem translator_blank_sources:
  assumes "sources c \<noteq> []"
    and "list_all (\<lambda>x. x = CHR '','' \<or> is_space x) (sources c)"
  shows "get_sources_list c = []
    \<and> get_newsapi_params c ''sources'' = Some (PStr [])
    \<and> get_newsapi_params c ''country'' = None
    \<and> get_newsapi_params c ''category'' = None"
proof -
  from assms(2) have "filter (\<lambda>s. strip s \<noteq> []) (split_comma (sources c)) = []"
    by (intro filter_strip_blank split_comma_blank)
  with assms(1) have l: "get_sources_list c = []"
    by (simp add: get_sources_list_def)
  with assms(1) show ?thesis
    by (simp add: get_newsapi_params_def Let_def)
qed

theorem translator_blank_sources_witness:
  "get_sources_list (example_config\<lparr>sources := '' , ''\<rparr>) = []
    \<and> get_newsapi_params (example_config\<lparr>sources := '' , ''\<rparr>) ''sources'' = Some (PStr [])
    \<and> get_newsapi_params (example_config\<lparr>sources := '' , ''\<rparr>) ''country'' = None
    \<and> get_newsapi_params (example_config\<lparr>sources := '' , ''\<rparr>) ''category'' = None
    \<and> get_sources_list (example_config\<lparr>sources := [CHR 0xA0]\<rparr>) = []
    \<and> get_newsapi_params (example_config\<lparr>sources := [CHR 0xA0, CHR '','', CHR 0x85]\<rparr>)
          ''sources'' = Some (PStr [])"
  using translator_blank_sources [of "example_config\<lparr>sources := '' , ''\<rparr>"]
    translator_blank_sources [of "example_config\<lparr>sources := [CHR 0xA0]\<rparr>"]
    translator_blank_sources [of "example_config\<lparr>sources := [CHR 0xA0, CHR '','', CHR 0x85]\<rparr>"]
  by (simp add: is_space_def)

section \<open>Looking rows up\<close>

lemma filter_key_unique:
  "distinct (map f rows) \<Longrightarrow> r \<in> set rows \<Longrightarrow> filter (\<lambda>a. f a = f r) rows = [r]"
proof (induction rows)
  case Nil
  then show ?case by simp
next
  case (Cons x xs)
  show ?case
  proof (cases "x = r")
    case True
    with Cons.prems have "f r \<notin> f ` set xs" by simp
    then have "\<forall>a \<in> set xs. f a \<noteq> f r"
      by (metis imageI)
    then have "filter (\<lambda>a. f a = f r) xs = []"
      by (simp add: filter_empty_conv)
    with True show ?thesis by simp
  next
    case False
    with Cons.prems have r: "r \<in> set xs" and nx: "f x \<notin> f ` set xs" by auto
    from r nx have "f x \<noteq> f r" by auto
    with Cons.IH Cons.prems r show ?thesis by simp
  qed
qed

lemma objects_get_unique:
  "distinct (map f rows) \<Longrightarrow> r \<in> set rows \<Longrightarrow> objects_get (\<lambda>a. f a = f r) rows = Inr r"
  by (simp add: objects_get_def filter_key_unique)

lemma objects_get_absent:
  "filter P rows = [] \<Longrightarrow> objects_get P rows = Inl DoesNotExist"
  by (simp add: objects_get_def)

lemma objects_get_active_config:
  assumes "distinct (map config_pk cs)" and "cfg \<in> set cs" and "is_active cfg"
  shows "objects_get (\<lambda>c. config_pk c = config_pk cfg \<and> is_active c) cs = Inr cfg"
proof -
  have "filter (\<lambda>c. config_pk c = config_pk cfg \<and> is_active c) cs
      = filter is_active (filter (\<lambda>c. config_pk c = config_pk cfg) cs)"
    by (simp add: conj_commute)
  also have "\<dots> = [cfg]"
    using assms by (simp add: filter_key_unique)
  finally show ?thesis
    by (simp add: objects_get_def)
qed

section \<open>The ingestion task: results that end the invocation\<close>

text \<open>
  C3. When no stored configuration with the given id is active (there is none with
  this id, or it is inactive), the invocation returns the result
  \<^verbatim>\<open>Configuration not found or inactive\<close>: it raises nothing, asks for no retry, and
  leaves the state as it was, so nothing is written to either store.
\<close>

theorem fetch_unavailable:
  assumes "\<forall>c \<in> set (configs w). config_pk c = cid \<longrightarrow> \<not> is_active c"
  shows "fetch_news_for_config e retries cid news_api_key w
           = (Returned (Error Config_unavailable), w)"
proof -
  from assms have "filter (\<lambda>c. config_pk c = cid \<and> is_active c) (configs w) = []"
    by (auto simp: filter_empty_conv)
  then have "objects_get (\<lambda>c. config_pk c = cid \<and> is_active c) (configs w) = Inl DoesNotExist"
    by (rule objects_get_absent)
  then show ?thesis
    by (simp add: fetch_news_for_config_def)
qed

theorem fetch_unavailable_witness:
  "fetch_news_for_config example_env 0 2 (Some ''k'') example_world
     = (Returned (Error Config_unavailable), example_world)
   \<and> fetch_news_for_config example_env 0 1 (Some ''k'')
       (example_world\<lparr>configs := [example_config\<lparr>is_active := False\<rparr>]\<rparr>)
     = (Returned (Error Config_unavailable),
        example_world\<lparr>configs := [example_config\<lparr>is_active := False\<rparr>]\<rparr>)"
  using fetch_unavailable [of example_world 2 example_env 0 "Some ''k''"]
    fetch_unavailable [of "example_world\<lparr>configs := [example_config\<lparr>is_active := False\<rparr>]\<rparr>" 1
      example_env 0 "Some ''k''"]
  by (simp add: example_world_def example_config_def)

text \<open>
  C4, as amended. When the provider answers with an HTTP status code outside 400 to 599
  and the status field of the body is not \<^verbatim>\<open>ok\<close>, the invocation returns the error
  result with the provider's message (or \<^verbatim>\<open>Unknown NewsAPI error\<close> when the body has
  none), asks for no retry, and leaves the state as it was: no article is stored and
  the last-executed time is not set.
\<close>

theorem provider_error_result:
  assumes "distinct (map config_pk (configs w))"
    and "cfg \<in> set (configs w)"
    and "is_active cfg"
    and "key_or news_api_key (NEWS_API_KEY e) = Some k"
    and "k \<noteq> []"
    and "requests_get e (top_headlines_request cfg k) = Response code (PDict body)"
    and "\<not> (400 \<le> code \<and> code < 600)"
    and "map_of body ''status'' \<noteq> Some (PStr ''ok'')"
  shows "fetch_news_for_config e retries (config_pk cfg) news_api_key w
           = (Returned (Error (NewsAPI_error
                (case map_of body ''message'' of
                   None \<Rightarrow> PStr ''Unknown NewsAPI error''
                 | Some m \<Rightarrow> m))), w)"
proof -
  have g: "objects_get (\<lambda>c. config_pk c = config_pk cfg \<and> is_active c) (configs w) = Inr cfg"
    using assms(1-3) by (rule objects_get_active_config)
  have r: "process_response e cfg (config_pk cfg) (PDict body) w
           = (Returned (Error (NewsAPI_error
                (case map_of body ''message'' of
                   None \<Rightarrow> PStr ''Unknown NewsAPI error''
                 | Some m \<Rightarrow> m))), w)"
    using assms(8) by (simp add: process_response_def split: option.splits)
  show ?thesis
    using g r assms(4-7) by (auto simp: fetch_news_for_config_def)
qed

theorem provider_error_result_witness:
  "fetch_news_for_config
     (example_env\<lparr>requests_get := (\<lambda>r. Response 200 example_rejection)\<rparr>) 0 1 (Some ''k'')
     example_world
   = (Returned (Error (NewsAPI_error (PStr ''Your API key is invalid or incorrect.''))),
      example_world)"
  using provider_error_result [of example_world example_config "Some ''k''"
      "example_env\<lparr>requests_get := (\<lambda>r. Response 200 example_rejection)\<rparr>" "''k''" 200
      "[(''status'', PStr ''error''), (''code'', PStr ''apiKeyInvalid''),
        (''message'', PStr ''Your API key is invalid or incorrect.'')]" 0]
  by (simp add: example_world_def example_config_def example_env_def example_rejection_def
      key_or_def)

text \<open>
  Without the condition on the status code the statement fails, namely when the
  provider reports the rejection with an HTTP error code as well: \<^verbatim>\<open>raise_for_status\<close> raises before the body is read, the handler for
  \<^verbatim>\<open>RequestException\<close> catches it, and the invocation is retried after 60 seconds.
\<close>

theorem provider_error_retried:
  "py_get example_rejection ''status'' PNone = Inr (PStr ''error'')
   \<and> fetch_news_for_config
     (example_env\<lparr>requests_get := (\<lambda>r. Response 401 example_rejection)\<rparr>) 0 1 (Some ''k'')
     example_world
   = (Retry 60, example_world)"
  by (simp add: fetch_news_for_config_def objects_get_def example_world_def example_config_def
      example_env_def example_rejection_def key_or_def self_retry_def max_retries_def)

section \<open>Creating rows\<close>

lemma get_or_create_existing:
  assumes "distinct (map url (articles w))" and "a \<in> set (articles w)"
    and "to_text e (p_url p) = Some (url a)"
  shows "get_or_create e p w = (Inr (a, False), w)"
proof -
  have eq: "(\<lambda>x. to_text e (p_url p) = Some (url x)) = (\<lambda>x. url x = url a)"
    using assms(3) by (auto simp: fun_eq_iff)
  have "objects_get (\<lambda>x. to_text e (p_url p) = Some (url x)) (articles w) = Inr a"
    unfolding eq using assms(1,2) by (rule objects_get_unique)
  then show ?thesis
    by (simp add: get_or_create_def)
qed

lemma url_text_examples:
  "to_text e (PStr ''https://example.com/article'') = Some ''https://example.com/article''"
  "to_text e (PInt 5) = to_text e (PStr ''5'')"
  "to_text e (PInt (- 12)) = Some ''-12''"
  "to_text e (PBool True) = Some ''True''"
  by (simp_all add: str_int_def digit_char_def)

lemma objects_create_Inr:
  assumes "objects_create e p w = (Inr a, w1)"
  shows "to_text e (p_url p) = Some (url a)
    \<and> a = new_row p (url a) (next_article_pk w) (clock e (ticks w))
    \<and> w1 = w\<lparr>ticks := Suc (ticks w), articles := articles w @ [a],
             next_article_pk := Suc (next_article_pk w)\<rparr>
    \<and> url a \<notin> set (map url (articles w))"
  using assms
  by (auto simp: objects_create_def timezone_now_def Let_def new_row_def
      split: if_splits option.splits)

lemma objects_create_Inl:
  assumes "objects_create e p w = (Inl x, w1)"
  shows "configs w1 = configs w \<and> articles w1 = articles w"
  using assms
  by (auto simp: objects_create_def timezone_now_def Let_def split: if_splits option.splits)

lemma get_or_create_created:
  assumes "get_or_create e p w = (Inr (a, True), w1)"
  shows "to_text e (p_url p) = Some (url a)
    \<and> a = new_row p (url a) (next_article_pk w) (clock e (ticks w))
    \<and> w1 = w\<lparr>ticks := Suc (ticks w), articles := articles w @ [a],
             next_article_pk := Suc (next_article_pk w)\<rparr>
    \<and> url a \<notin> set (map url (articles w))"
proof -
  from assms have "objects_create e p w = (Inr a, w1)"
    by (auto simp: get_or_create_def split: sum.splits if_splits prod.splits)
  then show ?thesis by (rule objects_create_Inr)
qed

lemma get_or_create_configs: "configs (snd (get_or_create e p w)) = configs w"
proof (cases "objects_create e p w")
  case (Pair r w1)
  then have "configs w1 = configs w"
    using objects_create_Inr [of e p w _ w1] objects_create_Inl [of e p w _ w1]
    by (cases r) auto
  with Pair show ?thesis
    by (auto simp: get_or_create_def split: sum.splits if_splits prod.splits)
qed

lemma create_from_newsapi_configs: "configs (snd (create_from_newsapi e d cfg w)) = configs w"
  by (simp add: create_from_newsapi_def get_or_create_configs split: sum.splits)

lemma process_articles_configs:
  "configs (fst (process_articles e cfg ds w c k)) = configs w"
proof (induction ds arbitrary: w c k)
  case Nil
  then show ?case by simp
next
  case (Cons d ds)
  obtain r w1 where s: "create_from_newsapi e d cfg w = (r, w1)"
    by (cases "create_from_newsapi e d cfg w") auto
  then have "configs w1 = configs w"
    using create_from_newsapi_configs [of e d cfg w] by simp
  with s Cons.IH show ?case
    by (auto split: sum.splits)
qed

lemma params_of_Inr:
  assumes "newsapi_params_of d cfg = Inr p"
  shows "py_getitem d ''url'' = Inr (p_url p)
    \<and> source_id_of d = Inr (p_source_id p)
    \<and> source_name_of d = Inr (p_source_name p)
    \<and> p_search_config p = cfg"
  using assms
  by (auto simp: newsapi_params_of_def bind_exn_def split: sum.splits)

lemma process_single:
  "process_articles e cfg [d] w c k =
     (case create_from_newsapi e d cfg w of
        (Inr (a, created), w1) \<Rightarrow> if created then (w1, c + 1, k) else (w1, c, k + 1)
      | (Inl x, w1) \<Rightarrow> (w1, c, k))"
  by (simp split: prod.splits sum.splits)

lemmas ingest_defs =
  create_from_newsapi_def newsapi_params_of_def source_id_of_def source_name_of_def
  bind_exn_def get_or_create_def objects_get_def objects_create_def timezone_now_def
  new_row_def Let_def

lemmas example_defs =
  example_env_def example_config_def example_world_def example_stored_def
  example_article_def example_record_def example_no_source_def example_untitled_def
  example_null_title_def example_no_source_row_def example_params_def
  example_failing_body_def example_rejection_def

lemma example_record_created:
  "create_from_newsapi example_env example_record example_config example_world
     = (Inr (example_article, True), example_stored)"
  by (simp add: ingest_defs example_defs)

lemma example_no_source_created:
  "create_from_newsapi example_env example_no_source example_config example_world
     = (Inr (example_no_source_row, True),
        example_world\<lparr>ticks := 1, articles := [example_no_source_row], next_article_pk := 2\<rparr>)"
  by (simp add: ingest_defs example_defs)

section \<open>Normalisation and the URL as key\<close>

text \<open>
  C6. When \<^verbatim>\<open>create_from_newsapi\<close> creates a row, the row is in the Article Store; if
  the record has no source (the key is absent, or its value is null or an empty
  object) the row's source name is the string \<^verbatim>\<open>Unknown\<close> and its source id is null;
  if the record has a source object, the row's source name is that object's
  \<^verbatim>\<open>name\<close> and its source id is that object's \<^verbatim>\<open>id\<close>, null when the object has
  none.
\<close>

theorem source_attribution:
  assumes "create_from_newsapi e d cfg w = (Inr (a, True), w')"
  shows "a \<in> set (articles w')
    \<and> (\<forall>src. py_get d ''source'' PNone = Inr src \<and> \<not> truthy src \<longrightarrow>
          source_name a = PStr ''Unknown'' \<and> source_id a = PNone)
    \<and> (\<forall>src. py_get d ''source'' PNone = Inr src \<and> truthy src \<longrightarrow>
          py_getitem src ''name'' = Inr (source_name a)
          \<and> py_get src ''id'' PNone = Inr (source_id a))"
proof -
  from assms obtain p where p: "newsapi_params_of d cfg = Inr p"
    and g: "get_or_create e p w = (Inr (a, True), w')"
    by (auto simp: create_from_newsapi_def split: sum.splits)
  note cr = get_or_create_created [OF g]
  have a: "a = new_row p (url a) (next_article_pk w) (clock e (ticks w))"
    using cr by blast
  have "w' = w\<lparr>ticks := Suc (ticks w), articles := articles w @ [a],
             next_article_pk := Suc (next_article_pk w)\<rparr>"
    using cr by blast
  then have w': "articles w' = articles w @ [a]"
    by simp
  have sn: "source_name a = p_source_name p"
    by (subst a) (simp add: new_row_def)
  have si: "source_id a = p_source_id p"
    by (subst a) (simp add: new_row_def)
  from p have i: "source_id_of d = Inr (source_id a)"
    and n: "source_name_of d = Inr (source_name a)"
    using params_of_Inr [OF p] sn si by simp_all
  have 1: "a \<in> set (articles w')"
    using w' by simp
  have 2: "source_name a = PStr ''Unknown'' \<and> source_id a = PNone"
    if "py_get d ''source'' PNone = Inr src" and "\<not> truthy src" for src
    using that i n by (simp add: source_id_of_def source_name_of_def bind_exn_def)
  have 3: "py_getitem src ''name'' = Inr (source_name a)
      \<and> py_get src ''id'' PNone = Inr (source_id a)"
    if "py_get d ''source'' PNone = Inr src" and "truthy src" for src
  proof -
    from that(1) obtain kvs where d: "d = PDict kvs"
      by (cases d) simp_all
    with that have "py_getitem d ''source'' = Inr src"
      by (auto split: option.splits)
    with that i n show ?thesis
      by (simp add: source_id_of_def source_name_of_def bind_exn_def)
  qed
  from 1 2 3 show ?thesis by blast
qed

theorem source_attribution_witness:
  "create_from_newsapi example_env example_no_source example_config example_world
     = (Inr (example_no_source_row, True),
        example_world\<lparr>ticks := 1, articles := [example_no_source_row], next_article_pk := 2\<rparr>)
   \<and> source_name example_no_source_row = PStr ''Unknown''
   \<and> source_id example_no_source_row = PNone
   \<and> create_from_newsapi example_env example_record example_config example_world
     = (Inr (example_article, True), example_stored)
   \<and> source_name example_article = PStr ''BBC News''
   \<and> source_id example_article = PStr ''bbc-news''"
  using source_attribution [OF example_no_source_created]
    source_attribution [OF example_record_created]
    example_no_source_created example_record_created
  by (simp add: example_defs)

text \<open>
  C1, as amended. Let the URLs of the Article Store be distinct. (1) If the record
  normalises, that is, the arguments of \<^verbatim>\<open>get_or_create\<close> evaluate without an
  exception, and a stored row has the text of the record's URL, whichever
  configuration stored it and whichever configuration ingests now, then
  \<^verbatim>\<open>create_from_newsapi\<close> returns that row as not created, the state is unchanged (no
  row is added, no field of the stored row changes), and the loop counts one
  duplicate. (2) If a first ingestion of the record creates a row, then one row has
  been added, a second ingestion, by any configuration, changes nothing and counts one
  duplicate, and exactly one stored row has the record's URL. (3) If the record does
  not normalise, the state is unchanged and the loop counts it neither as created nor
  as a duplicate, whether or not its URL is stored.
\<close>

theorem url_dedup:
  assumes "distinct (map url (articles w))"
  shows "(\<forall>p a. newsapi_params_of d cfg = Inr p \<and> a \<in> set (articles w)
              \<and> to_text e (p_url p) = Some (url a) \<longrightarrow>
            create_from_newsapi e d cfg w = (Inr (a, False), w)
            \<and> process_articles e cfg [d] w c k = (w, c, k + 1))
    \<and> (\<forall>p w1. newsapi_params_of d cfg = Inr p
              \<and> process_articles e cfg [d] w 0 0 = (w1, 1, 0) \<longrightarrow>
            length (articles w1) = Suc (length (articles w))
            \<and> process_articles e cfg' [d] w1 0 0 = (w1, 0, 1)
            \<and> length (filter (\<lambda>a. to_text e (p_url p) = Some (url a)) (articles w1)) = 1)
    \<and> (\<forall>x. newsapi_params_of d cfg = Inl x \<longrightarrow>
            create_from_newsapi e d cfg w = (Inl x, w)
            \<and> process_articles e cfg [d] w c k = (w, c, k))"
proof (intro conjI allI impI)
  fix p a
  assume h: "newsapi_params_of d cfg = Inr p \<and> a \<in> set (articles w)
      \<and> to_text e (p_url p) = Some (url a)"
  with assms show c: "create_from_newsapi e d cfg w = (Inr (a, False), w)"
    by (simp add: create_from_newsapi_def get_or_create_existing)
  then show "process_articles e cfg [d] w c k = (w, c, k + 1)"
    by (simp add: process_single)
next
  fix p w1
  assume h: "newsapi_params_of d cfg = Inr p \<and> process_articles e cfg [d] w 0 0 = (w1, 1, 0)"
  then have p: "newsapi_params_of d cfg = Inr p"
    and first: "process_articles e cfg [d] w 0 0 = (w1, 1, 0)"
    by simp_all
  from first obtain a where "create_from_newsapi e d cfg w = (Inr (a, True), w1)"
    by (auto simp: process_single split: prod.splits sum.splits if_splits)
  with p have g: "get_or_create e p w = (Inr (a, True), w1)"
    by (simp add: create_from_newsapi_def)
  note cr = get_or_create_created [OF g]
  have u: "to_text e (p_url p) = Some (url a)"
    using cr by blast
  have fresh: "url a \<notin> set (map url (articles w))"
    using cr by blast
  have "w1 = w\<lparr>ticks := Suc (ticks w), articles := articles w @ [a],
             next_article_pk := Suc (next_article_pk w)\<rparr>"
    using cr by blast
  then have w1: "articles w1 = articles w @ [a]"
    by simp
  then show "length (articles w1) = Suc (length (articles w))"
    by simp
  from w1 fresh assms have d1: "distinct (map url (articles w1))"
    by simp
  from w1 have in1: "a \<in> set (articles w1)"
    by simp
  have p': "newsapi_params_of d cfg' = Inr (p\<lparr>p_search_config := cfg'\<rparr>)"
    using p
    by (auto simp: newsapi_params_of_def bind_exn_def split: sum.splits)
  have "get_or_create e (p\<lparr>p_search_config := cfg'\<rparr>) w1 = (Inr (a, False), w1)"
    using d1 in1 u by (simp add: get_or_create_existing)
  with p' have "create_from_newsapi e d cfg' w1 = (Inr (a, False), w1)"
    by (simp add: create_from_newsapi_def)
  then show "process_articles e cfg' [d] w1 0 0 = (w1, 0, 1)"
    by (simp add: process_single)
  have eq: "(\<lambda>x. to_text e (p_url p) = Some (url x)) = (\<lambda>x. url x = url a)"
    using u by (auto simp: fun_eq_iff)
  have "filter (\<lambda>x. to_text e (p_url p) = Some (url x)) (articles w1) = [a]"
    unfolding eq using d1 in1 by (rule filter_key_unique)
  then show "length (filter (\<lambda>a. to_text e (p_url p) = Some (url a)) (articles w1)) = 1"
    by simp
next
  fix x
  assume "newsapi_params_of d cfg = Inl x"
  then show c: "create_from_newsapi e d cfg w = (Inl x, w)"
    by (simp add: create_from_newsapi_def)
  then show "process_articles e cfg [d] w c k = (w, c, k)"
    by (simp add: process_single)
qed

theorem url_dedup_witness:
  "create_from_newsapi example_env example_record (example_config\<lparr>config_pk := 2\<rparr>)
       example_stored
     = (Inr (example_article, False), example_stored)
   \<and> process_articles example_env (example_config\<lparr>config_pk := 2\<rparr>) [example_record]
       example_stored 0 0
     = (example_stored, 0, 1)
   \<and> process_articles example_env example_config [example_record] example_world 0 0
     = (example_stored, 1, 0)
   \<and> process_articles example_env (example_config\<lparr>config_pk := 2\<rparr>) [example_record]
       example_stored 0 0
     = (example_stored, 0, 1)
   \<and> length (filter (\<lambda>a. Some ''https://example.com/article'' = Some (url a))
        (articles example_stored)) = 1
   \<and> newsapi_params_of example_untitled example_config = Inl (KeyError ''title'')
   \<and> process_articles example_env example_config [example_untitled] example_stored 0 0
     = (example_stored, 0, 0)"
proof -
  have d1: "distinct (map url (articles example_stored))"
    and d0: "distinct (map url (articles example_world))"
    by (simp_all add: example_defs)
  have p2: "newsapi_params_of example_record (example_config\<lparr>config_pk := 2\<rparr>)
      = Inr example_params"
    by (simp add: ingest_defs example_defs)
  have p1: "newsapi_params_of example_record example_config
      = Inr (example_params\<lparr>p_search_config := example_config\<rparr>)"
    by (simp add: ingest_defs example_defs)
  have a: "example_article \<in> set (articles example_stored)
      \<and> to_text example_env (p_url example_params) = Some (url example_article)"
    by (simp add: example_defs)
  have first: "process_articles example_env example_config [example_record] example_world 0 0
      = (example_stored, 1, 0)"
    by (simp add: ingest_defs example_defs)
  have u: "to_text example_env (p_url (example_params\<lparr>p_search_config := example_config\<rparr>))
      = Some ''https://example.com/article''"
    by (simp add: example_params_def)
  have n: "newsapi_params_of example_untitled example_config = Inl (KeyError ''title'')"
    by (simp add: ingest_defs example_defs)
  note r1 = url_dedup [OF d1, of example_record "example_config\<lparr>config_pk := 2\<rparr>"
      example_env 0 0 example_config]
  note r2 = url_dedup [OF d0, of example_record example_config example_env
      0 0 "example_config\<lparr>config_pk := 2\<rparr>"]
  note r3 = url_dedup [OF d1, of example_untitled example_config example_env 0 0 example_config]
  from r1 [THEN conjunct1, rule_format, of example_params example_article] p2 a
  have one: "create_from_newsapi example_env example_record (example_config\<lparr>config_pk := 2\<rparr>)
       example_stored = (Inr (example_article, False), example_stored)
     \<and> process_articles example_env (example_config\<lparr>config_pk := 2\<rparr>) [example_record]
       example_stored 0 0 = (example_stored, 0, 1)"
    by simp
  from r2 [THEN conjunct2, THEN conjunct1, rule_format,
      of "example_params\<lparr>p_search_config := example_config\<rparr>" example_stored] p1 first
  have two: "process_articles example_env (example_config\<lparr>config_pk := 2\<rparr>) [example_record]
       example_stored 0 0 = (example_stored, 0, 1)
     \<and> length (filter (\<lambda>a. to_text example_env
          (p_url (example_params\<lparr>p_search_config := example_config\<rparr>)) = Some (url a))
          (articles example_stored)) = 1"
    by simp
  from r3 [THEN conjunct2, THEN conjunct2, rule_format, of "KeyError ''title''"] n
  have three: "process_articles example_env example_config [example_untitled] example_stored 0 0
      = (example_stored, 0, 0)"
    by simp
  from one two three first n u show ?thesis
    by simp
qed

text \<open>
  Without the conditions of (1) and (2) the statement fails. Python evaluates
  \<^verbatim>\<open>article_data["title"]\<close> before \<^verbatim>\<open>get_or_create\<close> looks the URL up, so a record
  without a title whose URL is stored raises \<^verbatim>\<open>KeyError\<close>, and the loop skips it
  without counting a duplicate. And a record that normalises but whose title is null
  is refused by the database each time: ingested twice into a store without it, it
  leaves no stored article and counts no duplicate.
\<close>

theorem untitled_duplicate_not_counted:
  "example_article \<in> set (articles example_stored)
   \<and> bind_exn (py_getitem example_untitled ''url'') (\<lambda>u. Inr (to_text example_env u))
     = Inr (Some (url example_article))
   \<and> process_articles example_env example_config [example_untitled] example_stored 0 0
     = (example_stored, 0, 0)
   \<and> process_articles example_env example_config [example_null_title] example_world 0 0
     = (example_world\<lparr>ticks := 1\<rparr>, 0, 0)
   \<and> process_articles example_env example_config [example_null_title]
       (example_world\<lparr>ticks := 1\<rparr>) 0 0
     = (example_world\<lparr>ticks := 2\<rparr>, 0, 0)
   \<and> articles (example_world\<lparr>ticks := 2\<rparr>) = []"
  by (simp add: ingest_defs example_defs)

section \<open>The ingestion task: a successful response\<close>

text \<open>
  C5. Let the configuration be stored and active, a key be given, and the provider
  answer with an HTTP status code outside 400 to 599 and a body whose status is
  \<^verbatim>\<open>ok\<close> and whose \<^verbatim>\<open>articles\<close> can be iterated (or are absent). Whatever the
  records are and whatever the loop over them gives, also when every record fails,
  the invocation returns the success result with the loop's counts, and the state
  after it is the state after the loop with one more clock reading and, in the
  Configuration Store, the last-executed time of this configuration set to that
  reading: every other field and every other configuration is as before the
  invocation.
\<close>

theorem last_executed_set:
  assumes "distinct (map config_pk (configs w))"
    and "cfg \<in> set (configs w)"
    and "is_active cfg"
    and "key_or news_api_key (NEWS_API_KEY e) = Some k"
    and "k \<noteq> []"
    and "requests_get e (top_headlines_request cfg k) = Response code (PDict body)"
    and "\<not> (400 \<le> code \<and> code < 600)"
    and "map_of body ''status'' = Some (PStr ''ok'')"
    and "bind_exn (py_get (PDict body) ''articles'' (PList [])) py_iter = Inr records"
    and "process_articles e cfg records w 0 0 = (w1, created_count, duplicate_count)"
  shows "fetch_news_for_config e retries (config_pk cfg) news_api_key w
           = (Returned (Success (config_pk cfg) (name cfg) (length records)
                          created_count duplicate_count),
              w1\<lparr>ticks := Suc (ticks w1),
                 configs := map (\<lambda>c. if config_pk c = config_pk cfg
                                      then c\<lparr>last_executed := Some (clock e (ticks w1))\<rparr>
                                      else c)
                                (configs w)\<rparr>)"
proof -
  have g: "objects_get (\<lambda>c. config_pk c = config_pk cfg \<and> is_active c) (configs w) = Inr cfg"
    using assms(1-3) by (rule objects_get_active_config)
  have c1: "configs w1 = configs w"
    using process_articles_configs [of e cfg records w 0 0] assms(10) by simp
  with assms(2) have m: "config_pk cfg \<in> set (map config_pk (configs w1))"
    by simp
  have s: "save_last_executed (cfg\<lparr>last_executed := Some (clock e (ticks w1))\<rparr>)
             (w1\<lparr>ticks := Suc (ticks w1)\<rparr>)
           = Inr (w1\<lparr>ticks := Suc (ticks w1),
                 configs := map (\<lambda>c. if config_pk c = config_pk cfg
                                      then c\<lparr>last_executed := Some (clock e (ticks w1))\<rparr>
                                      else c)
                                (configs w)\<rparr>)"
    using m c1 by (simp add: save_last_executed_def)
  have r: "process_response e cfg (config_pk cfg) (PDict body) w
           = (Returned (Success (config_pk cfg) (name cfg) (length records)
                          created_count duplicate_count),
              w1\<lparr>ticks := Suc (ticks w1),
                 configs := map (\<lambda>c. if config_pk c = config_pk cfg
                                      then c\<lparr>last_executed := Some (clock e (ticks w1))\<rparr>
                                      else c)
                                (configs w)\<rparr>)"
    using assms(8-10) s by (simp add: process_response_def timezone_now_def)
  show ?thesis
    using g r assms(4-7) by (auto simp: fetch_news_for_config_def)
qed

theorem last_executed_set_witness:
  "fetch_news_for_config
     (example_env\<lparr>requests_get := (\<lambda>r. Response 200 example_failing_body)\<rparr>) 0 1 (Some ''k'')
     example_stored
   = (Returned (Success 1 ''Tech News'' 2 0 0),
      example_stored\<lparr>ticks := 3,
        configs := [example_config\<lparr>last_executed := Some 63840000000000002\<rparr>]\<rparr>)"
proof -
  have l: "process_articles
      (example_env\<lparr>requests_get := (\<lambda>r. Response 200 example_failing_body)\<rparr>)
      example_config [example_untitled, example_null_title] example_stored 0 0
      = (example_stored\<lparr>ticks := 2\<rparr>, 0, 0)"
    by (simp add: ingest_defs example_defs)
  show ?thesis
    using last_executed_set [of example_stored example_config "Some ''k''"
        "example_env\<lparr>requests_get := (\<lambda>r. Response 200 example_failing_body)\<rparr>" "''k''" 200
        "[(''status'', PStr ''ok''), (''totalResults'', PInt 2),
          (''articles'', PList [example_untitled, example_null_title])]"
        "[example_untitled, example_null_title]" "example_stored\<lparr>ticks := 2\<rparr>" 0 0 0] l
    by (simp add: example_stored_def example_config_def example_env_def
        example_failing_body_def key_or_def bind_exn_def)
qed

section \<open>The bulk-create endpoint and the loop of the task\<close>

lemma create_loop_matches:
  "create_loop e cfg ds w acc = (Inr rows, w') \<Longrightarrow> fst (process_articles e cfg ds w c k) = w'"
proof (induction ds arbitrary: w acc c k)
  case Nil
  then show ?case by simp
next
  case (Cons d ds)
  from Cons.prems obtain a created w1
    where s: "create_from_newsapi e d cfg w = (Inr (a, created), w1)"
      and l: "create_loop e cfg ds w1 (acc @ [a]) = (Inr rows, w')"
    by (auto split: prod.splits sum.splits)
  from Cons.IH [OF l] have "fst (process_articles e cfg ds w1 c' k') = w'" for c' k'
    by simp
  with s show ?case by simp
qed

text \<open>
  C9, as amended. When the bulk-create endpoint returns its list of rows, that is, when
  no record of the batch raises, the state it leaves is the state that the loop of the
  ingestion task leaves for the same batch and configuration: both call
  \<^verbatim>\<open>create_from_newsapi\<close> for each record in turn.
\<close>

theorem bulk_create_matches_pipeline:
  assumes "get_object_or_404 (\<lambda>c. config_pk c = sc_id) (configs w) = Inr cfg"
    and "create_articles_from_newsapi e sc_id ds w = (Inr rows, w')"
  shows "fst (process_articles e cfg ds w 0 0) = w'"
proof -
  from assms have "create_loop e cfg ds w [] = (Inr rows, w')"
    by (simp add: create_articles_from_newsapi_def split: if_splits)
  then show ?thesis
    by (rule create_loop_matches)
qed

theorem bulk_create_matches_pipeline_witness:
  "create_articles_from_newsapi example_env 1 [example_record, example_record] example_world
     = (Inr [example_article, example_article], example_stored)
   \<and> fst (process_articles example_env example_config [example_record, example_record]
        example_world 0 0)
     = example_stored"
proof -
  have g: "get_object_or_404 (\<lambda>c. config_pk c = 1) (configs example_world) = Inr example_config"
    by (simp add: get_object_or_404_def objects_get_def example_defs)
  have c: "create_articles_from_newsapi example_env 1 [example_record, example_record]
      example_world = (Inr [example_article, example_article], example_stored)"
    by (simp add: create_articles_from_newsapi_def get_object_or_404_def ingest_defs example_defs)
  from bulk_create_matches_pipeline [OF g c] c show ?thesis
    by simp
qed

text \<open>
  For a batch with a record that raises the two states differ: the endpoint's loop
  has no handler, so it ends at that record and stores none of the records after it,
  while the loop of the task skips the record and stores the rest. Here the first
  record has a null title and the second is well formed.
\<close>

theorem bulk_create_stops_at_failure:
  "articles (snd (create_articles_from_newsapi example_env 1
       [example_null_title, example_record] example_world)) = []
   \<and> articles (fst (process_articles example_env example_config
       [example_null_title, example_record] example_world 0 0))
     = [example_article\<lparr>created_at := 63840000000000001\<rparr>]"
  by (simp add: create_articles_from_newsapi_def get_object_or_404_def ingest_defs example_defs)

section \<open>The retention sweep\<close>

lemma filter_none_old:
  "length (filter P xs) = 0 \<Longrightarrow> filter (\<lambda>a. \<not> P a) xs = xs"
  by (induction xs) (auto split: if_splits)

text \<open>
  C8. When the cutoff, the current time minus \<open>n\<close> days, is a time that Python can
  represent, the sweep with a window of \<open>n\<close> days deletes exactly the articles whose
  creation time is strictly before the cutoff and keeps every other article as it
  is, whatever their publication times are; it returns the number of articles deleted
  and the cutoff. Without an argument the window is 30 days.
\<close>

theorem cleanup_by_creation_time:
  assumes "minus_days (clock e (ticks w)) n = Inr cutoff"
  shows "cutoff = clock e (ticks w) - n * day_us
    \<and> cleanup_old_articles e (Some n) w
        = (Cleanup_ok (length (filter (\<lambda>a. created_at a < cutoff) (articles w))) cutoff,
           w\<lparr>ticks := Suc (ticks w),
              articles := filter (\<lambda>a. \<not> created_at a < cutoff) (articles w)\<rparr>)
    \<and> cleanup_old_articles e None w = cleanup_old_articles e (Some 30) w"
proof (intro conjI)
  from assms show "cutoff = clock e (ticks w) - n * day_us"
    by (auto simp: minus_days_def split: if_splits)
  show "cleanup_old_articles e (Some n) w
        = (Cleanup_ok (length (filter (\<lambda>a. created_at a < cutoff) (articles w))) cutoff,
           w\<lparr>ticks := Suc (ticks w),
              articles := filter (\<lambda>a. \<not> created_at a < cutoff) (articles w)\<rparr>)"
  proof (cases "length (filter (\<lambda>a. created_at a < cutoff) (articles w)) = 0")
    case True
    then have "filter (\<lambda>a. \<not> created_at a < cutoff) (articles w) = articles w"
      by (rule filter_none_old)
    with True assms show ?thesis
      by (simp add: cleanup_old_articles_def timezone_now_def Let_def)
  next
    case False
    with assms show ?thesis
      by (simp add: cleanup_old_articles_def timezone_now_def Let_def)
  qed
  show "cleanup_old_articles e None w = cleanup_old_articles e (Some 30) w"
    by (simp add: cleanup_old_articles_def)
qed

theorem cleanup_by_creation_time_witness:
  "cleanup_old_articles example_env None
     (example_stored\<lparr>articles :=
        [example_article\<lparr>created_at := 63836544000000000\<rparr>,
         example_article\<lparr>article_pk := 2, url := ''https://example.com/at-cutoff'',
           created_at := 63837408000000001\<rparr>,
         example_article\<lparr>article_pk := 3, url := ''https://example.com/new''\<rparr>]\<rparr>)
   = (Cleanup_ok 1 63837408000000001,
      example_stored\<lparr>ticks := 2, articles :=
        [example_article\<lparr>article_pk := 2, url := ''https://example.com/at-cutoff'',
           created_at := 63837408000000001\<rparr>,
         example_article\<lparr>article_pk := 3, url := ''https://example.com/new''\<rparr>]\<rparr>)"
proof -
  have m: "minus_days (clock example_env (ticks (example_stored\<lparr>articles :=
        [example_article\<lparr>created_at := 63836544000000000\<rparr>,
         example_article\<lparr>article_pk := 2, url := ''https://example.com/at-cutoff'',
           created_at := 63837408000000001\<rparr>,
         example_article\<lparr>article_pk := 3, url := ''https://example.com/new''\<rparr>]\<rparr>))) 30
      = Inr 63837408000000001"
    by (simp add: minus_days_def datetime_ok_def day_us_def MAXORDINAL_def example_defs)
  from cleanup_by_creation_time [OF m] show ?thesis
    by (simp add: example_defs)
qed

section \<open>Further properties\<close>

lemma get_or_create_distinct:
  assumes "distinct (map url (articles w))"
  shows "distinct (map url (articles (snd (get_or_create e p w))))"
proof (cases "objects_create e p w")
  case (Pair r w1)
  have "distinct (map url (articles w1))"
  proof (cases r)
    case (Inl x)
    with Pair assms show ?thesis
      using objects_create_Inl [of e p w x w1] by simp
  next
    case (Inr a)
    with Pair have c: "objects_create e p w = (Inr a, w1)" by simp
    note cr = objects_create_Inr [OF c]
    have fresh: "url a \<notin> set (map url (articles w))"
      using cr by blast
    have "w1 = w\<lparr>ticks := Suc (ticks w), articles := articles w @ [a],
             next_article_pk := Suc (next_article_pk w)\<rparr>"
      using cr by blast
    then have "articles w1 = articles w @ [a]"
      by simp
    with fresh assms show ?thesis by simp
  qed
  with Pair assms show ?thesis
    by (auto simp: get_or_create_def split: sum.splits if_splits prod.splits)
qed

lemma create_from_newsapi_distinct:
  "distinct (map url (articles w)) \<Longrightarrow>
   distinct (map url (articles (snd (create_from_newsapi e d cfg w))))"
  by (simp add: create_from_newsapi_def get_or_create_distinct split: sum.splits)

lemma process_articles_distinct:
  "distinct (map url (articles w)) \<Longrightarrow>
   distinct (map url (articles (fst (process_articles e cfg ds w c k))))"
proof (induction ds arbitrary: w c k)
  case Nil
  then show ?case by simp
next
  case (Cons d ds)
  obtain r w1 where s: "create_from_newsapi e d cfg w = (r, w1)"
    by (cases "create_from_newsapi e d cfg w") auto
  with Cons.prems have "distinct (map url (articles w1))"
    using create_from_newsapi_distinct [of w e d cfg] by simp
  with s Cons.IH show ?case
    by (auto split: sum.splits)
qed

lemma create_loop_distinct:
  "distinct (map url (articles w)) \<Longrightarrow>
   distinct (map url (articles (snd (create_loop e cfg ds w acc))))"
proof (induction ds arbitrary: w acc)
  case Nil
  then show ?case by simp
next
  case (Cons d ds)
  obtain r w1 where s: "create_from_newsapi e d cfg w = (r, w1)"
    by (cases "create_from_newsapi e d cfg w") auto
  with Cons.prems have "distinct (map url (articles w1))"
    using create_from_newsapi_distinct [of w e d cfg] by simp
  with s Cons.IH show ?case
    by (auto split: sum.splits)
qed

lemma process_response_distinct:
  assumes "distinct (map url (articles w))"
  shows "distinct (map url (articles (snd (process_response e cfg cid data w))))"
proof -
  have "distinct (map url (articles (fst (process_articles e cfg ds w 0 0))))" for ds
    using assms by (rule process_articles_distinct)
  then have "distinct (map url (articles w1))"
    if "process_articles e cfg ds w 0 0 = (w1, c, k)" for ds w1 c k
    using that by (metis fst_conv)
  with assms show ?thesis
    by (auto simp: process_response_def timezone_now_def save_last_executed_def
        split: sum.splits prod.splits if_splits)
qed

text \<open>
  The URLs of the Article Store stay distinct: the ingestion task, the bulk-create
  endpoint and the retention sweep each leave a store with distinct URLs when they
  start from one, whatever they return.
\<close>

theorem url_unique_preserved:
  assumes "distinct (map url (articles w))"
  shows "distinct (map url (articles (snd (fetch_news_for_config e retries cid news_api_key w))))
    \<and> distinct (map url (articles (snd (create_articles_from_newsapi e sc_id ds w))))
    \<and> distinct (map url (articles (snd (cleanup_old_articles e days_arg w))))"
proof (intro conjI)
  show "distinct (map url (articles (snd (fetch_news_for_config e retries cid news_api_key w))))"
    using assms process_response_distinct [OF assms]
    by (auto simp: fetch_news_for_config_def
        split: sum.splits option.splits http_outcome.splits)
  show "distinct (map url (articles (snd (create_articles_from_newsapi e sc_id ds w))))"
    using assms create_loop_distinct [OF assms]
    by (auto simp: create_articles_from_newsapi_def split: sum.splits)
  show "distinct (map url (articles (snd (cleanup_old_articles e days_arg w))))"
    using assms
    by (auto simp: cleanup_old_articles_def timezone_now_def Let_def distinct_map_filter
        split: sum.splits)
qed

theorem url_unique_preserved_witness:
  "distinct (map url (articles (snd (fetch_news_for_config
       (example_env\<lparr>requests_get := (\<lambda>r. Response 200 example_failing_body)\<rparr>) 0 1 (Some ''k'')
       example_stored))))
   \<and> distinct (map url (articles (snd (create_articles_from_newsapi
       (example_env\<lparr>requests_get := (\<lambda>r. Response 200 example_failing_body)\<rparr>) 1
       [example_record, example_record] example_stored))))
   \<and> distinct (map url (articles (snd (cleanup_old_articles
       (example_env\<lparr>requests_get := (\<lambda>r. Response 200 example_failing_body)\<rparr>) None
       example_stored))))"
proof -
  have "distinct (map url (articles example_stored))"
    by (simp add: example_defs)
  then show ?thesis
    by (rule url_unique_preserved)
qed

text \<open>
  When neither the argument nor the settings give a key, the invocation for a stored,
  active configuration returns the result \<^verbatim>\<open>No NewsAPI key configured\<close>, asks for no
  retry and leaves the state as it was.
\<close>

theorem missing_key:
  assumes "distinct (map config_pk (configs w))"
    and "cfg \<in> set (configs w)"
    and "is_active cfg"
    and "news_api_key = None \<or> news_api_key = Some []"
    and "NEWS_API_KEY e = None \<or> NEWS_API_KEY e = Some []"
  shows "fetch_news_for_config e retries (config_pk cfg) news_api_key w
           = (Returned (Error No_api_key), w)"
proof -
  have g: "objects_get (\<lambda>c. config_pk c = config_pk cfg \<and> is_active c) (configs w) = Inr cfg"
    using assms(1-3) by (rule objects_get_active_config)
  from assms(4,5) have "key_or news_api_key (NEWS_API_KEY e) = None
      \<or> key_or news_api_key (NEWS_API_KEY e) = Some []"
    by (auto simp: key_or_def)
  with g show ?thesis
    by (auto simp: fetch_news_for_config_def)
qed

theorem missing_key_witness:
  "fetch_news_for_config example_env 0 1 None example_world
     = (Returned (Error No_api_key), example_world)"
  using missing_key [of example_world example_config None example_env 0]
  by (simp add: example_defs)

text \<open>
  When \<^verbatim>\<open>requests.get\<close> raises, the invocation asks for a retry after 60 seconds times
  one more than the number of retries so far, up to three retries; after the third
  the exception is raised. The state is unchanged.
\<close>

theorem network_failure_retry:
  assumes "distinct (map config_pk (configs w))"
    and "cfg \<in> set (configs w)"
    and "is_active cfg"
    and "key_or news_api_key (NEWS_API_KEY e) = Some k"
    and "k \<noteq> []"
    and "requests_get e (top_headlines_request cfg k) = Request_failed"
  shows "fetch_news_for_config e retries (config_pk cfg) news_api_key w
           = (if retries < 3 then Retry (60 * (retries + 1)) else Raised RequestException, w)"
proof -
  have g: "objects_get (\<lambda>c. config_pk c = config_pk cfg \<and> is_active c) (configs w) = Inr cfg"
    using assms(1-3) by (rule objects_get_active_config)
  with assms(4-6) show ?thesis
    by (auto simp: fetch_news_for_config_def self_retry_def max_retries_def)
qed

theorem network_failure_retry_witness:
  "fetch_news_for_config example_env 0 1 (Some ''k'') example_world = (Retry 60, example_world)
   \<and> fetch_news_for_config example_env 2 1 (Some ''k'') example_world = (Retry 180, example_world)
   \<and> fetch_news_for_config example_env 3 1 (Some ''k'') example_world
       = (Raised RequestException, example_world)"
  using network_failure_retry [of example_world example_config "Some ''k''" example_env "''k''" 0]
    network_failure_retry [of example_world example_config "Some ''k''" example_env "''k''" 2]
    network_failure_retry [of example_world example_config "Some ''k''" example_env "''k''" 3]
  by (simp add: example_defs key_or_def)

end
